theory Spec2Isabelle
  imports Main
begin

section \<open>Reminder scheduling: a shallow embedding of the scheduler and reminder services\<close>

text \<open>
  The development follows \<^verbatim>\<open>internal/application/service/scheduler_impl.go\<close>,
  \<^verbatim>\<open>internal/application/service/reminder_impl.go\<close>,
  \<^verbatim>\<open>internal/infrastructure/scheduler/cron.go\<close> and the SQLite repositories.
  Mutable state (the job store, the cron engine, the two tables, the messages pushed and
  the log) is one record that every operation takes and returns. A Go \<^verbatim>\<open>error\<close> result
  is an \<open>option\<close> (\<open>None\<close> is \<^verbatim>\<open>nil\<close>); a reading of \<^verbatim>\<open>time.Now()\<close> is an
  explicit argument of the call that takes it.
\<close>

subsection \<open>Wall-clock time\<close>

text \<open>
  A \<^verbatim>\<open>time.Time\<close> is modelled by its calendar fields in one fixed location, at the
  granularity of whole seconds. \<^verbatim>\<open>IsZero\<close> recognises January 1 of year 1, 00:00:00,
  \<^verbatim>\<open>Before\<close> is the strict order of instants and \<^verbatim>\<open>Add\<close> adds a duration given in
  seconds.
\<close>

record Time =
  Year :: nat
  Month :: nat
  Day :: nat
  Hour :: nat
  Minute :: nat
  Second :: nat

definition zeroTime :: Time where
  "zeroTime = \<lparr>Year = 1, Month = 1, Day = 1, Hour = 0, Minute = 0, Second = 0\<rparr>"

definition IsZero :: "Time \<Rightarrow> bool" where
  "IsZero t = (t = zeroTime)"

definition Before :: "Time \<Rightarrow> Time \<Rightarrow> bool" where
  "Before t u =
     (Year t < Year u \<or> (Year t = Year u \<and>
     (Month t < Month u \<or> (Month t = Month u \<and>
     (Day t < Day u \<or> (Day t = Day u \<and>
     (Hour t < Hour u \<or> (Hour t = Hour u \<and>
     (Minute t < Minute u \<or> (Minute t = Minute u \<and>
      Second t < Second u))))))))))"

definition isLeap :: "nat \<Rightarrow> bool" where
  "isLeap y = (y mod 4 = 0 \<and> (y mod 100 \<noteq> 0 \<or> y mod 400 = 0))"

definition daysIn :: "nat \<Rightarrow> nat \<Rightarrow> nat" where
  "daysIn m y =
     (if m = 2 then (if isLeap y then 29 else 28)
      else if m = 4 \<or> m = 6 \<or> m = 9 \<or> m = 11 then 30 else 31)"

definition valid_time :: "Time \<Rightarrow> bool" where
  "valid_time t =
     (1 \<le> Year t \<and> 1 \<le> Month t \<and> Month t \<le> 12 \<and> 1 \<le> Day t \<and>
      Day t \<le> daysIn (Month t) (Year t) \<and> Hour t < 24 \<and> Minute t < 60 \<and> Second t < 60)"

definition next_day :: "Time \<Rightarrow> Time" where
  "next_day t =
     (if Day t < daysIn (Month t) (Year t) then t\<lparr>Day := Day t + 1\<rparr>
      else if Month t < 12 then t\<lparr>Month := Month t + 1, Day := 1\<rparr>
      else t\<lparr>Year := Year t + 1, Month := 1, Day := 1\<rparr>)"

fun add_days :: "nat \<Rightarrow> Time \<Rightarrow> Time" where
  "add_days 0 t = t"
| "add_days (Suc n) t = add_days n (next_day t)"

definition Add :: "Time \<Rightarrow> nat \<Rightarrow> Time" where
  "Add t d =
     (let s = Hour t * 3600 + Minute t * 60 + Second t + d
      in (add_days (s div 86400) t)
           \<lparr>Hour := (s mod 86400) div 3600, Minute := (s mod 3600) div 60, Second := s mod 60\<rparr>)"

subsection \<open>Decimal text\<close>

text \<open>
  \<^verbatim>\<open>fmt.Sprintf("%d", n)\<close> and \<^verbatim>\<open>strconv.FormatUint(n, 10)\<close> on a non-negative
  number, and \<^verbatim>\<open>strconv.ParseUint(s, 10, 64)\<close>, which rejects the empty string, every
  character that is not a digit and every value beyond 64 bits.
\<close>

definition digit_char :: "nat \<Rightarrow> char" where
  "digit_char d = ''0123456789'' ! (d mod 10)"

definition digit_val :: "char \<Rightarrow> nat option" where
  "digit_val c = map_of (zip ''0123456789'' [0, 1, 2, 3, 4, 5, 6, 7, 8, 9]) c"

function decimal :: "nat \<Rightarrow> string" where
  "decimal n = (if n < 10 then [digit_char n] else decimal (n div 10) @ [digit_char n])"
  by pat_completeness auto
termination
  by (relation "measure id") auto

declare decimal.simps [simp del]

definition FormatUint :: "nat \<Rightarrow> string" where
  "FormatUint n = decimal n"

fun parse_digits :: "string \<Rightarrow> nat \<Rightarrow> nat option" where
  "parse_digits [] acc = Some acc"
| "parse_digits (c # cs) acc =
     (case digit_val c of None \<Rightarrow> None | Some d \<Rightarrow> parse_digits cs (acc * 10 + d))"

definition ParseUint :: "string \<Rightarrow> nat option" where
  "ParseUint s =
     (if s = [] then None
      else case parse_digits s 0 of
             None \<Rightarrow> None
           | Some n \<Rightarrow> if n < 2 ^ 64 then Some n else None)"

subsection \<open>The cron engine\<close>

text \<open>
  \<^verbatim>\<open>formatCronSpec\<close> is the program's; the parser and the entry list stand for
  \<^verbatim>\<open>cron.New(cron.WithSeconds())\<close>. Of the cron grammar the parser recognises what
  \<^verbatim>\<open>formatCronSpec\<close> can emit: six fields separated by blanks, five numbers within the
  bounds of second, minute, hour, day of month and month, and \<^verbatim>\<open>*\<close> for the day of the
  week. The program hands no other text to \<^verbatim>\<open>AddJob\<close>. A job is one of the two closures
  built by the scheduler service, named by the reminder id it captured.
\<close>

definition formatCronSpec :: "Time \<Rightarrow> string" where
  "formatCronSpec t =
     decimal (Second t) @ '' '' @ decimal (Minute t) @ '' '' @ decimal (Hour t) @ '' '' @
     decimal (Day t) @ '' '' @ decimal (Month t) @ '' *''"

function Fields :: "string \<Rightarrow> string list" where
  "Fields [] = []"
| "Fields (c # cs) =
     (if c = CHR '' '' then Fields cs
      else (c # takeWhile (\<lambda>x. x \<noteq> CHR '' '') cs) # Fields (dropWhile (\<lambda>x. x \<noteq> CHR '' '') cs))"
  by pat_completeness auto
termination
  by (relation "measure length") (auto simp: length_dropWhile_le less_Suc_eq_le)

record SpecSchedule =
  sSecond :: nat
  sMinute :: nat
  sHour :: nat
  sDom :: nat
  sMonth :: nat

definition parse_field :: "string \<Rightarrow> nat \<Rightarrow> nat \<Rightarrow> nat option" where
  "parse_field f lo hi =
     (if f = [] then None
      else case parse_digits f 0 of
             None \<Rightarrow> None
           | Some n \<Rightarrow> if lo \<le> n \<and> n \<le> hi then Some n else None)"

definition parseSpec :: "string \<Rightarrow> SpecSchedule option" where
  "parseSpec spec =
     (case Fields spec of
        [a, b, c, d, e, f] \<Rightarrow>
          (case (parse_field a 0 59, parse_field b 0 59, parse_field c 0 23,
                 parse_field d 1 31, parse_field e 1 12) of
             (Some s, Some m, Some h, Some dm, Some mon) \<Rightarrow>
               if f = ''*''
               then Some \<lparr>sSecond = s, sMinute = m, sHour = h, sDom = dm, sMonth = mon\<rparr>
               else None
           | _ \<Rightarrow> None)
      | _ \<Rightarrow> None)"

datatype job = NotifyJob nat | CleanupJob nat

record Entry =
  EntryID :: nat
  Schedule :: SpecSchedule
  Job :: job

definition due :: "Time \<Rightarrow> Entry \<Rightarrow> bool" where
  "due t e =
     (sSecond (Schedule e) = Second t \<and> sMinute (Schedule e) = Minute t \<and>
      sHour (Schedule e) = Hour t \<and> sDom (Schedule e) = Day t \<and>
      sMonth (Schedule e) = Month t)"

subsection \<open>Entities, errors and the state\<close>

record Reminder =
  ID :: nat
  UserID :: string
  Content :: string
  RemindTime :: Time

record User =
  uID :: string
  TextID :: "string option"
  LastNotifyTextID :: "string option"
  Status :: int

definition StatusInitial :: int where "StatusInitial = 0"
definition StatusAwaitingTime :: int where "StatusAwaitingTime = 1"
definition StatusAwaitingCancel :: int where "StatusAwaitingCancel = 2"

datatype app_error =
  ErrUserNotFound | ErrInvalidStatus | ErrReminderNotFound | ErrInvalidDateTime
  | ErrDatabaseOperation | ErrLineAPI | ErrScheduling | ErrSnoozeUnavailable
  | ErrInternalServer

datatype log_line =
  HandlingNotification nat
  | CleaningUpOldReminder nat
  | InitializationComplete nat nat

record world =
  handleNotificationFunc :: bool
  handleCleanupFunc :: bool
  jobStore :: "nat \<rightharpoonup> (string \<rightharpoonup> nat)"
  entries :: "Entry list"
  nextID :: nat
  reminder_content :: "Reminder list"
  reminder_seq :: nat
  user_session :: "User list"
  pushed :: "(string \<times> string) list"
  logged :: "log_line list"


subsection \<open>The job store\<close>

definition jobTypeNotify :: string where "jobTypeNotify = ''notify''"
definition jobTypeCleanup :: string where "jobTypeCleanup = ''cleanup''"

text \<open>\<^verbatim>\<open>cleanupGracePeriod = 24 * time.Hour\<close>, in seconds.\<close>

definition cleanupGracePeriod :: nat where "cleanupGracePeriod = 24 * 3600"

definition storeJobID :: "world \<Rightarrow> nat \<Rightarrow> string \<Rightarrow> nat \<Rightarrow> world" where
  "storeJobID s reminderID jobType entryID =
     (let jobs = (case jobStore s reminderID of None \<Rightarrow> Map.empty | Some m \<Rightarrow> m)
      in s\<lparr>jobStore := (jobStore s)(reminderID \<mapsto> jobs(jobType \<mapsto> entryID))\<rparr>)"

definition removeJobID :: "world \<Rightarrow> nat \<Rightarrow> string \<Rightarrow> (nat \<times> bool) \<times> world" where
  "removeJobID s reminderID jobType =
     (case jobStore s reminderID of
        None \<Rightarrow> ((0, False), s)
      | Some jobs \<Rightarrow>
          (case jobs jobType of
             None \<Rightarrow> ((0, False), s)
           | Some entryID \<Rightarrow>
               (let jobs' = jobs(jobType := None)
                in ((entryID, True),
                    s\<lparr>jobStore := (if dom jobs' = {} then (jobStore s)(reminderID := None)
                                    else (jobStore s)(reminderID \<mapsto> jobs'))\<rparr>))))"

text \<open>The handle stored for a reminder and a job type, if any.\<close>

definition lookup_job :: "world \<Rightarrow> nat \<Rightarrow> string \<Rightarrow> nat option" where
  "lookup_job s reminderID jobType =
     (case jobStore s reminderID of None \<Rightarrow> None | Some jobs \<Rightarrow> jobs jobType)"

subsection \<open>The scheduler wrapper and the scheduler service\<close>

text \<open>
  \<^verbatim>\<open>cron.AddFunc\<close> rejects a spec that does not parse and otherwise appends an entry
  under the next id (ids start at 1); \<^verbatim>\<open>cron.Remove\<close> drops the entry with the id.
\<close>

definition AddJob :: "world \<Rightarrow> string \<Rightarrow> job \<Rightarrow> nat option \<times> world" where
  "AddJob s spec cmd =
     (case parseSpec spec of
        None \<Rightarrow> (None, s)
      | Some sched \<Rightarrow>
          (let entryID = nextID s + 1
           in (Some entryID,
               s\<lparr>nextID := entryID,
                 entries := entries s @ [\<lparr>EntryID = entryID, Schedule = sched, Job = cmd\<rparr>]\<rparr>)))"

definition RemoveJob :: "world \<Rightarrow> nat \<Rightarrow> world" where
  "RemoveJob s entryID = s\<lparr>entries := filter (\<lambda>e. EntryID e \<noteq> entryID) (entries s)\<rparr>"

definition CancelReminderSchedule :: "world \<Rightarrow> nat \<Rightarrow> app_error option \<times> world" where
  "CancelReminderSchedule s reminderID =
     (case removeJobID s reminderID jobTypeNotify of
        ((entryID, ok), s') \<Rightarrow> if ok then (None, RemoveJob s' entryID) else (None, s'))"

definition CancelCleanupSchedule :: "world \<Rightarrow> nat \<Rightarrow> app_error option \<times> world" where
  "CancelCleanupSchedule s reminderID =
     (case removeJobID s reminderID jobTypeCleanup of
        ((entryID, ok), s') \<Rightarrow> if ok then (None, RemoveJob s' entryID) else (None, s'))"

definition ScheduleReminder :: "world \<Rightarrow> Time \<Rightarrow> Reminder \<Rightarrow> app_error option \<times> world" where
  "ScheduleReminder s now reminder =
     (if \<not> handleNotificationFunc s then (Some ErrInternalServer, s)
      else if IsZero (RemindTime reminder) \<or> Before (RemindTime reminder) now
      then (Some ErrScheduling, s)
      else
        (let s1 = snd (CancelReminderSchedule s (ID reminder));
             spec = formatCronSpec (RemindTime reminder);
             reminderID = ID reminder
         in case AddJob s1 spec (NotifyJob reminderID) of
              (None, s2) \<Rightarrow> (Some ErrScheduling, s2)
            | (Some entryID, s2) \<Rightarrow> (None, storeJobID s2 reminderID jobTypeNotify entryID)))"

definition ScheduleReminderCleanup :: "world \<Rightarrow> Time \<Rightarrow> nat \<Rightarrow> app_error option \<times> world" where
  "ScheduleReminderCleanup s now reminderID =
     (if \<not> handleCleanupFunc s then (Some ErrInternalServer, s)
      else
        (let s1 = snd (CancelCleanupSchedule s reminderID);
             cleanupTime = Add now cleanupGracePeriod;
             spec = formatCronSpec cleanupTime;
             capturedReminderID = reminderID
         in case AddJob s1 spec (CleanupJob capturedReminderID) of
              (None, s2) \<Rightarrow> (Some ErrScheduling, s2)
            | (Some entryID, s2) \<Rightarrow>
                (None, storeJobID s2 capturedReminderID jobTypeCleanup entryID)))"

subsection \<open>The repositories and the messaging client\<close>

text \<open>
  A table is the list of its rows. Every call to the store or to the messaging API can
  fail: \<open>flt\<close> names, for each call, the error the outside world answers with, if any
  (\<open>RecordNotFound\<close> is \<^verbatim>\<open>gorm.ErrRecordNotFound\<close>, \<open>Failure\<close> any other error). With
  no fault a call does what GORM does on SQLite: \<^verbatim>\<open>First\<close> reports a missing row,
  \<^verbatim>\<open>Find\<close> returns the matching rows, \<^verbatim>\<open>Delete\<close> succeeds whether or not a row
  matched, \<^verbatim>\<open>Create\<close> assigns the next key and \<^verbatim>\<open>Save\<close> replaces the row with the
  same key or inserts it.
\<close>

datatype fault = RecordNotFound | Failure

datatype call =
  ReminderFindByID nat
  | ReminderFindByUserIDAndContent string string
  | ReminderFindAll
  | ReminderCreate string
  | ReminderDelete nat
  | ReminderDeleteByUserIDAndContent string string
  | UserFindByUserID string
  | UserUpdate string
  | LinePushMessages string

type_synonym faults = "call \<Rightarrow> fault option"

definition reminderRepo_FindByID :: "faults \<Rightarrow> world \<Rightarrow> nat \<Rightarrow> fault + Reminder" where
  "reminderRepo_FindByID flt s i =
     (case flt (ReminderFindByID i) of
        Some e \<Rightarrow> Inl e
      | None \<Rightarrow>
          (case find (\<lambda>r. ID r = i) (reminder_content s) of
             None \<Rightarrow> Inl RecordNotFound
           | Some r \<Rightarrow> Inr r))"

definition reminderRepo_FindByUserIDAndContent ::
    "faults \<Rightarrow> world \<Rightarrow> string \<Rightarrow> string \<Rightarrow> fault + Reminder list" where
  "reminderRepo_FindByUserIDAndContent flt s userID content =
     (case flt (ReminderFindByUserIDAndContent userID content) of
        Some e \<Rightarrow> Inl e
      | None \<Rightarrow> Inr (filter (\<lambda>r. UserID r = userID \<and> Content r = content) (reminder_content s)))"

definition reminderRepo_FindAll :: "faults \<Rightarrow> world \<Rightarrow> fault + Reminder list" where
  "reminderRepo_FindAll flt s =
     (case flt ReminderFindAll of Some e \<Rightarrow> Inl e | None \<Rightarrow> Inr (reminder_content s))"

text \<open>The one caller of \<^verbatim>\<open>Create\<close> leaves the key at 0, so the store assigns it.\<close>

definition reminderRepo_Create ::
    "faults \<Rightarrow> world \<Rightarrow> Reminder \<Rightarrow> (nat \<times> fault option) \<times> world" where
  "reminderRepo_Create flt s reminder =
     (case flt (ReminderCreate (UserID reminder)) of
        Some e \<Rightarrow> ((0, Some e), s)
      | None \<Rightarrow>
          (let newID = reminder_seq s + 1
           in ((newID, None),
               s\<lparr>reminder_seq := newID,
                 reminder_content := reminder_content s @ [reminder\<lparr>ID := newID\<rparr>]\<rparr>)))"

definition reminderRepo_Delete :: "faults \<Rightarrow> world \<Rightarrow> nat \<Rightarrow> fault option \<times> world" where
  "reminderRepo_Delete flt s i =
     (case flt (ReminderDelete i) of
        Some e \<Rightarrow> (Some e, s)
      | None \<Rightarrow> (None, s\<lparr>reminder_content := filter (\<lambda>r. ID r \<noteq> i) (reminder_content s)\<rparr>))"

definition reminderRepo_DeleteByUserIDAndContent ::
    "faults \<Rightarrow> world \<Rightarrow> string \<Rightarrow> string \<Rightarrow> fault option \<times> world" where
  "reminderRepo_DeleteByUserIDAndContent flt s userID content =
     (case flt (ReminderDeleteByUserIDAndContent userID content) of
        Some e \<Rightarrow> (Some e, s)
      | None \<Rightarrow>
          (None, s\<lparr>reminder_content :=
                     filter (\<lambda>r. \<not> (UserID r = userID \<and> Content r = content))
                       (reminder_content s)\<rparr>))"

definition userRepo_FindByUserID :: "faults \<Rightarrow> world \<Rightarrow> string \<Rightarrow> fault + User" where
  "userRepo_FindByUserID flt s userID =
     (case flt (UserFindByUserID userID) of
        Some e \<Rightarrow> Inl e
      | None \<Rightarrow>
          (case find (\<lambda>u. uID u = userID) (user_session s) of
             None \<Rightarrow> Inl RecordNotFound
           | Some u \<Rightarrow> Inr u))"

definition save_user :: "User \<Rightarrow> User list \<Rightarrow> User list" where
  "save_user u us =
     (if \<exists>v \<in> set us. uID v = uID u
      then map (\<lambda>v. if uID v = uID u then u else v) us
      else us @ [u])"

definition userRepo_Update :: "faults \<Rightarrow> world \<Rightarrow> User \<Rightarrow> fault option \<times> world" where
  "userRepo_Update flt s user =
     (case flt (UserUpdate (uID user)) of
        Some e \<Rightarrow> (Some e, s)
      | None \<Rightarrow> (None, s\<lparr>user_session := save_user user (user_session s)\<rparr>))"

text \<open>
  A pushed message is recorded as the recipient and the reminder content that the text
  of the message is built around.
\<close>

definition PushMessages :: "faults \<Rightarrow> world \<Rightarrow> string \<Rightarrow> string \<Rightarrow> fault option \<times> world" where
  "PushMessages flt s to content =
     (case flt (LinePushMessages to) of
        Some e \<Rightarrow> (Some e, s)
      | None \<Rightarrow> (None, s\<lparr>pushed := pushed s @ [(to, content)]\<rparr>))"


subsection \<open>The reminder service\<close>

definition CreateReminder ::
    "faults \<Rightarrow> world \<Rightarrow> string \<Rightarrow> string \<Rightarrow> (nat \<times> app_error option) \<times> world" where
  "CreateReminder flt s userID content =
     (let reminder = \<lparr>ID = 0, UserID = userID, Content = content, RemindTime = zeroTime\<rparr>
      in case reminderRepo_Create flt s reminder of
           ((reminderID, Some e), s') \<Rightarrow> ((0, Some ErrDatabaseOperation), s')
         | ((reminderID, None), s') \<Rightarrow> ((reminderID, None), s'))"

definition cancel_both :: "world \<Rightarrow> Reminder \<Rightarrow> world" where
  "cancel_both s reminder =
     snd (CancelCleanupSchedule (snd (CancelReminderSchedule s (ID reminder))) (ID reminder))"

definition CancelReminder ::
    "faults \<Rightarrow> world \<Rightarrow> string \<Rightarrow> string \<Rightarrow> app_error option \<times> world" where
  "CancelReminder flt s userID content =
     (case reminderRepo_FindByUserIDAndContent flt s userID content of
        Inl e \<Rightarrow> (Some ErrDatabaseOperation, s)
      | Inr remindersToCancel \<Rightarrow>
          if length remindersToCancel = 0 then (Some ErrReminderNotFound, s)
          else
            (case reminderRepo_DeleteByUserIDAndContent flt s userID content of
               (Some e, s1) \<Rightarrow> (Some ErrDatabaseOperation, s1)
             | (None, s1) \<Rightarrow> (None, foldl cancel_both s1 remindersToCancel)))"

definition Snooze :: "faults \<Rightarrow> world \<Rightarrow> string \<Rightarrow> (string \<times> app_error option) \<times> world" where
  "Snooze flt s userID =
     (case userRepo_FindByUserID flt s userID of
        Inl RecordNotFound \<Rightarrow> (([], Some ErrUserNotFound), s)
      | Inl Failure \<Rightarrow> (([], Some ErrDatabaseOperation), s)
      | Inr user \<Rightarrow>
          (case LastNotifyTextID user of
             None \<Rightarrow> (([], Some ErrSnoozeUnavailable), s)
           | Some txt \<Rightarrow>
               if txt = [] then (([], Some ErrSnoozeUnavailable), s)
               else
                 (case ParseUint txt of
                    None \<Rightarrow> (([], Some ErrInternalServer), s)
                  | Some lastNotifyID \<Rightarrow>
                      (case reminderRepo_FindByID flt s lastNotifyID of
                         Inl RecordNotFound \<Rightarrow> (([], Some ErrSnoozeUnavailable), s)
                       | Inl Failure \<Rightarrow> (([], Some ErrDatabaseOperation), s)
                       | Inr originalReminder \<Rightarrow>
                           (let s1 = snd (CancelCleanupSchedule s (ID originalReminder))
                            in case CreateReminder flt s1 userID (Content originalReminder) of
                                 ((newReminderID, Some e), s2) \<Rightarrow> (([], Some e), s2)
                               | ((newReminderID, None), s2) \<Rightarrow>
                                   (let newReminderIDStr = FormatUint newReminderID;
                                        user' = user\<lparr>Status := StatusAwaitingTime,
                                                     TextID := Some newReminderIDStr\<rparr>
                                    in case userRepo_Update flt s2 user' of
                                         (Some e, s3) \<Rightarrow> (([], Some ErrDatabaseOperation), s3)
                                       | (None, s3) \<Rightarrow>
                                           ((Content originalReminder, None), s3)))))))"

definition HandleReminderNotification ::
    "faults \<Rightarrow> world \<Rightarrow> Time \<Rightarrow> nat \<Rightarrow> app_error option \<times> world" where
  "HandleReminderNotification flt s0 now reminderID =
     (let s = s0\<lparr>logged := logged s0 @ [HandlingNotification reminderID]\<rparr>
      in case reminderRepo_FindByID flt s reminderID of
           Inl RecordNotFound \<Rightarrow> (None, s)
         | Inl Failure \<Rightarrow> (Some ErrDatabaseOperation, s)
         | Inr reminder \<Rightarrow>
             (let s1 = snd (PushMessages flt s (UserID reminder) (Content reminder));
                  reminderIDStr = FormatUint reminderID;
                  s2 = (case userRepo_FindByUserID flt s1 (UserID reminder) of
                          Inl e \<Rightarrow> s1
                        | Inr user \<Rightarrow>
                            snd (userRepo_Update flt s1
                                   (user\<lparr>LastNotifyTextID := Some reminderIDStr\<rparr>)));
                  s3 = snd (ScheduleReminderCleanup s2 now reminderID)
              in (None, s3)))"

definition CleanupOldReminders :: "faults \<Rightarrow> world \<Rightarrow> nat \<Rightarrow> app_error option \<times> world" where
  "CleanupOldReminders flt s0 reminderID =
     (let s = s0\<lparr>logged := logged s0 @ [CleaningUpOldReminder reminderID]\<rparr>
      in case reminderRepo_Delete flt s reminderID of
           (Some RecordNotFound, s') \<Rightarrow> (None, s')
         | (Some Failure, s') \<Rightarrow> (Some ErrDatabaseOperation, s')
         | (None, s') \<Rightarrow> (None, s'))"

subsection \<open>Job callbacks and the firing of due entries\<close>

text \<open>
  The closures of \<^verbatim>\<open>ScheduleReminder\<close> and \<^verbatim>\<open>ScheduleReminderCleanup\<close>. The handler
  fields are only ever set, by \<^verbatim>\<open>NewReminderService\<close>, to
  \<^verbatim>\<open>HandleReminderNotification\<close> and \<^verbatim>\<open>CleanupOldReminders\<close>; calling an unset field is
  a nil call, which panics: \<open>None\<close>. The clock reading is the one taken while the callback
  runs.
\<close>

definition jobFunc :: "faults \<Rightarrow> world \<Rightarrow> Time \<Rightarrow> job \<Rightarrow> world option" where
  "jobFunc flt s now cmd =
     (case cmd of
        NotifyJob reminderID \<Rightarrow>
          if \<not> handleNotificationFunc s then None
          else
            (let s1 = snd (HandleReminderNotification flt s now reminderID)
             in Some (snd (removeJobID s1 reminderID jobTypeNotify)))
      | CleanupJob capturedReminderID \<Rightarrow>
          if \<not> handleCleanupFunc s then None
          else
            (let s1 = snd (CleanupOldReminders flt s capturedReminderID)
             in Some (snd (removeJobID s1 capturedReminderID jobTypeCleanup))))"

text \<open>
  What the cron engine does when the clock shows \<open>t\<close>: every entry whose schedule matches
  \<open>t\<close> has its job run. The engine itself never drops an entry.
\<close>

definition run_due :: "faults \<Rightarrow> world \<Rightarrow> Time \<Rightarrow> world option" where
  "run_due flt s t =
     fold (\<lambda>e r. case r of None \<Rightarrow> None | Some s' \<Rightarrow> jobFunc flt s' t (Job e))
       (filter (due t) (entries s)) (Some s)"

subsection \<open>Start-up\<close>

text \<open>
  \<open>now\<close> is the reading \<^verbatim>\<open>InitializeSchedules\<close> takes before its loop; \<open>clock i\<close> is
  the later reading taken inside the \<^verbatim>\<open>ScheduleReminder\<close> call for the reminder with
  id \<open>i\<close>. The two counts end up in the last log line.
\<close>

definition init_step ::
    "faults \<Rightarrow> Time \<Rightarrow> (nat \<Rightarrow> Time) \<Rightarrow> world \<times> nat \<times> nat \<Rightarrow> Reminder \<Rightarrow> world \<times> nat \<times> nat" where
  "init_step flt now clock acc reminder =
     (case acc of
        (s, scheduledCount, deletedCount) \<Rightarrow>
          if IsZero (RemindTime reminder) then (s, scheduledCount, deletedCount)
          else if Before (RemindTime reminder) now
          then
            (case reminderRepo_Delete flt s (ID reminder) of
               (Some e, s') \<Rightarrow> (s', scheduledCount, deletedCount)
             | (None, s') \<Rightarrow> (s', scheduledCount, deletedCount + 1))
          else
            (case ScheduleReminder s (clock (ID reminder)) reminder of
               (Some e, s') \<Rightarrow> (s', scheduledCount, deletedCount)
             | (None, s') \<Rightarrow> (s', scheduledCount + 1, deletedCount)))"

definition InitializeSchedules ::
    "faults \<Rightarrow> world \<Rightarrow> Time \<Rightarrow> (nat \<Rightarrow> Time) \<Rightarrow> app_error option \<times> world" where
  "InitializeSchedules flt s now clock =
     (case reminderRepo_FindAll flt s of
        Inl e \<Rightarrow> (Some ErrDatabaseOperation, s)
      | Inr reminders \<Rightarrow>
          (case foldl (init_step flt now clock) (s, 0, 0) reminders of
             (s', scheduledCount, deletedCount) \<Rightarrow>
               (None,
                s'\<lparr>logged := logged s' @ [InitializationComplete scheduledCount deletedCount]\<rparr>)))"

subsection \<open>Sequences of scheduler calls, and what the engine holds for a key\<close>

datatype sched_call =
  CallScheduleReminder Time Reminder
  | CallScheduleReminderCleanup Time nat
  | CallCancelReminderSchedule nat
  | CallCancelCleanupSchedule nat

fun do_call :: "world \<Rightarrow> sched_call \<Rightarrow> world" where
  "do_call s (CallScheduleReminder now reminder) = snd (ScheduleReminder s now reminder)"
| "do_call s (CallScheduleReminderCleanup now reminderID) =
     snd (ScheduleReminderCleanup s now reminderID)"
| "do_call s (CallCancelReminderSchedule reminderID) = snd (CancelReminderSchedule s reminderID)"
| "do_call s (CallCancelCleanupSchedule reminderID) = snd (CancelCleanupSchedule s reminderID)"

definition run_calls :: "world \<Rightarrow> sched_call list \<Rightarrow> world" where
  "run_calls s cs = foldl do_call s cs"

fun job_key :: "job \<Rightarrow> nat \<times> string" where
  "job_key (NotifyJob reminderID) = (reminderID, jobTypeNotify)"
| "job_key (CleanupJob reminderID) = (reminderID, jobTypeCleanup)"

text \<open>The ids of the engine's entries whose job belongs to a reminder and a job type.\<close>

definition handles_for :: "world \<Rightarrow> nat \<Rightarrow> string \<Rightarrow> nat list" where
  "handles_for s reminderID jobType =
     map EntryID (filter (\<lambda>e. job_key (Job e) = (reminderID, jobType)) (entries s))"

text \<open>
  The state \<^verbatim>\<open>NewSchedulerService\<close> and \<^verbatim>\<open>cron.New\<close> start from: no job stored, no
  entry, no id handed out.
\<close>

definition fresh_scheduler :: "world \<Rightarrow> bool" where
  "fresh_scheduler s = (dom (jobStore s) = {} \<and> entries s = [] \<and> nextID s = 0)"

text \<open>
  Entry ids are distinct and were all handed out already, and every stored handle names
  an entry of the engine whose job belongs to the key it is stored under.
\<close>

definition engine_ok :: "world \<Rightarrow> bool" where
  "engine_ok s =
     (distinct (map EntryID (entries s)) \<and>
      (\<forall>e \<in> set (entries s). EntryID e \<le> nextID s) \<and>
      (\<forall>reminderID jobType h. lookup_job s reminderID jobType = Some h \<longrightarrow>
         h \<in> set (handles_for s reminderID jobType)))"

text \<open>The engine holds, for the key, the stored handle and nothing else.\<close>

definition key_ok :: "world \<Rightarrow> nat \<Rightarrow> string \<Rightarrow> bool" where
  "key_ok s reminderID jobType =
     (handles_for s reminderID jobType =
        (case lookup_job s reminderID jobType of None \<Rightarrow> [] | Some h \<Rightarrow> [h]))"


subsection \<open>The common shape of the cancel and schedule functions\<close>

text \<open>
  The two cancel functions differ in the job type only, and so do the two schedule
  functions once their guards have passed; the proofs go through these shapes.
\<close>

definition cancel_job :: "world \<Rightarrow> nat \<Rightarrow> string \<Rightarrow> world" where
  "cancel_job s reminderID jobType =
     (case lookup_job s reminderID jobType of
        None \<Rightarrow> s
      | Some h \<Rightarrow> RemoveJob (snd (removeJobID s reminderID jobType)) h)"

definition replace_job ::
    "world \<Rightarrow> nat \<Rightarrow> string \<Rightarrow> string \<Rightarrow> job \<Rightarrow> app_error option \<times> world" where
  "replace_job s reminderID jobType spec cmd =
     (case AddJob (cancel_job s reminderID jobType) spec cmd of
        (None, s2) \<Rightarrow> (Some ErrScheduling, s2)
      | (Some entryID, s2) \<Rightarrow> (None, storeJobID s2 reminderID jobType entryID))"

text \<open>The fields no scheduler function writes.\<close>

definition outside_scheduler :: "world \<Rightarrow> world \<Rightarrow> bool" where
  "outside_scheduler s s' =
     (handleNotificationFunc s' = handleNotificationFunc s \<and>
      handleCleanupFunc s' = handleCleanupFunc s \<and>
      reminder_content s' = reminder_content s \<and> reminder_seq s' = reminder_seq s \<and>
      user_session s' = user_session s \<and> pushed s' = pushed s \<and> logged s' = logged s)"

subsection \<open>Concrete states and inputs for the examples\<close>

definition world0 :: world where
  "world0 =
     \<lparr>handleNotificationFunc = True, handleCleanupFunc = True, jobStore = Map.empty,
      entries = [], nextID = 0, reminder_content = [], reminder_seq = 0, user_session = [],
      pushed = [], logged = []\<rparr>"

definition at :: "nat \<Rightarrow> nat \<Rightarrow> nat \<Rightarrow> nat \<Rightarrow> nat \<Rightarrow> nat \<Rightarrow> Time" where
  "at y m d h mi sec = \<lparr>Year = y, Month = m, Day = d, Hour = h, Minute = mi, Second = sec\<rparr>"

definition milk :: "nat \<Rightarrow> Time \<Rightarrow> Reminder" where
  "milk i t = \<lparr>ID = i, UserID = ''U1'', Content = ''Buy milk'', RemindTime = t\<rparr>"

definition no_faults :: faults where
  "no_faults = (\<lambda>c. None)"

definition world_one_cleanup :: world where
  "world_one_cleanup =
     world0\<lparr>jobStore := [2 \<mapsto> [jobTypeCleanup \<mapsto> 1]],
            entries := [\<lparr>EntryID = 1,
                         Schedule = \<lparr>sSecond = 0, sMinute = 0, sHour = 9, sDom = 2, sMonth = 3\<rparr>,
                         Job = CleanupJob 2\<rparr>],
            nextID := 1\<rparr>"

definition sched_1230 :: SpecSchedule where
  "sched_1230 = \<lparr>sSecond = 0, sMinute = 30, sHour = 12, sDom = 5, sMonth = 3\<rparr>"

definition world_after_first :: world where
  "world_after_first =
     world0\<lparr>jobStore := [1 \<mapsto> [jobTypeNotify \<mapsto> 1]],
            entries := [\<lparr>EntryID = 1, Schedule = sched_1230, Job = NotifyJob 1\<rparr>],
            nextID := 1\<rparr>"

definition sched_cleanup_0302 :: SpecSchedule where
  "sched_cleanup_0302 = \<lparr>sSecond = 1, sMinute = 0, sHour = 9, sDom = 2, sMonth = 3\<rparr>"

definition world_both :: world where
  "world_both =
     world0\<lparr>jobStore := [1 \<mapsto> [jobTypeNotify \<mapsto> 1, jobTypeCleanup \<mapsto> 2]],
            entries := [\<lparr>EntryID = 1, Schedule = sched_1230, Job = NotifyJob 1\<rparr>,
                        \<lparr>EntryID = 2, Schedule = sched_cleanup_0302, Job = CleanupJob 1\<rparr>],
            nextID := 2\<rparr>"

definition notify_then_cleanup :: "sched_call list" where
  "notify_then_cleanup =
     [CallScheduleReminder (at 2026 3 1 9 0 0) (milk 1 (at 2026 3 5 12 30 0)),
      CallScheduleReminderCleanup (at 2026 3 1 9 0 1) 1]"

text \<open>The schedule the parser reads off the spec of a time.\<close>

definition schedule_of :: "Time \<Rightarrow> SpecSchedule" where
  "schedule_of t =
     \<lparr>sSecond = Second t, sMinute = Minute t, sHour = Hour t, sDom = Day t, sMonth = Month t\<rparr>"

definition world_unwired :: world where
  "world_unwired = world0\<lparr>handleNotificationFunc := False\<rparr>"

section \<open>Properties\<close>

subsection \<open>Decimal text and cron specs\<close>

lemma upd_none_empty: "m(k := None) = Map.empty \<Longrightarrow> k' \<noteq> k \<Longrightarrow> m k' = None"
  by (metis fun_upd_apply)

lemma lookup_removeJobID:
  "lookup_job (snd (removeJobID s rid jt)) rid' jt' =
     (if rid' = rid \<and> jt' = jt then None else lookup_job s rid' jt')"
  by (auto simp: lookup_job_def removeJobID_def Let_def upd_none_empty split: option.splits)

lemma digit_roundtrip: "d < 10 \<Longrightarrow> digit_val (digit_char d) = Some d"
proof -
  assume "d < 10"
  then have "d = 0 \<or> d = 1 \<or> d = 2 \<or> d = 3 \<or> d = 4 \<or> d = 5 \<or> d = 6 \<or> d = 7 \<or> d = 8 \<or> d = 9"
    by arith
  then show ?thesis
    by (elim disjE) (simp_all add: digit_char_def digit_val_def)
qed

lemma digit_char_mod: "digit_char (n mod 10) = digit_char n"
  by (simp add: digit_char_def)

lemma digit_char_not_blank: "digit_char d \<noteq> CHR '' ''"
proof -
  have "d mod 10 < 10" by simp
  then have "d mod 10 = 0 \<or> d mod 10 = 1 \<or> d mod 10 = 2 \<or> d mod 10 = 3 \<or> d mod 10 = 4 \<or> d mod 10 = 5 \<or> d mod 10 = 6 \<or> d mod 10 = 7 \<or> d mod 10 = 8 \<or> d mod 10 = 9"
    by arith
  then show ?thesis
    by (elim disjE) (simp_all add: digit_char_def)
qed

lemma parse_digits_append:
  "parse_digits (xs @ ys) acc =
     (case parse_digits xs acc of None \<Rightarrow> None | Some a \<Rightarrow> parse_digits ys a)"
  by (induction xs arbitrary: acc) (auto split: option.splits)

lemma parse_digits_decimal: "parse_digits (decimal n) 0 = Some n"
proof (induction n rule: decimal.induct)
  case (1 n)
  show ?case
  proof (cases "n < 10")
    case True
    then show ?thesis
      by (subst decimal.simps) (simp add: digit_roundtrip)
  next
    case False
    have "digit_val (digit_char n) = Some (n mod 10)"
      using digit_roundtrip [of "n mod 10"] by (simp add: digit_char_mod)
    with False "1.IH" show ?thesis
      by (subst decimal.simps) (simp add: parse_digits_append)
  qed
qed

lemma decimal_not_Nil: "decimal n \<noteq> []"
  by (subst decimal.simps) simp

lemma decimal_no_blank: "CHR '' '' \<notin> set (decimal n)"
proof (induction n rule: decimal.induct)
  case (1 n)
  have "CHR '' '' \<noteq> digit_char n"
    using digit_char_not_blank [of n] by simp
  with 1 show ?case
    by (subst decimal.simps) auto
qed

lemma ParseUint_FormatUint: "n < 2 ^ 64 \<Longrightarrow> ParseUint (FormatUint n) = Some n"
  by (simp add: ParseUint_def FormatUint_def decimal_not_Nil parse_digits_decimal)

lemma Fields_word:
  assumes "w \<noteq> []" "CHR '' '' \<notin> set w"
  shows "Fields (w @ CHR '' '' # rest) = w # Fields rest"
proof -
  from assms obtain c cs where w: "w = c # cs" by (cases w) auto
  with assms have c: "c \<noteq> CHR '' ''" and cs: "\<And>x. x \<in> set cs \<Longrightarrow> x \<noteq> CHR '' ''"
    by auto
  have "takeWhile (\<lambda>x. x \<noteq> CHR '' '') (cs @ CHR '' '' # rest) = cs"
    using cs by (simp add: takeWhile_append2)
  moreover have "dropWhile (\<lambda>x. x \<noteq> CHR '' '') (cs @ CHR '' '' # rest) = CHR '' '' # rest"
    using cs by (simp add: dropWhile_append2)
  ultimately show ?thesis using c w by simp
qed

lemma Fields_decimal: "Fields (decimal n @ CHR '' '' # rest) = decimal n # Fields rest"
  by (rule Fields_word) (simp_all add: decimal_not_Nil decimal_no_blank)

lemma Fields_formatCronSpec:
  "Fields (formatCronSpec t) =
     [decimal (Second t), decimal (Minute t), decimal (Hour t), decimal (Day t),
      decimal (Month t), ''*'']"
  by (simp add: formatCronSpec_def Fields_decimal)

lemma parse_field_decimal:
  "lo \<le> n \<Longrightarrow> n \<le> hi \<Longrightarrow> parse_field (decimal n) lo hi = Some n"
  by (simp add: parse_field_def decimal_not_Nil parse_digits_decimal)

lemma valid_time_Day: "valid_time t \<Longrightarrow> Day t \<le> 31"
  by (auto simp: valid_time_def daysIn_def split: if_splits)

lemma parseSpec_formatCronSpec:
  assumes "valid_time t"
  shows "parseSpec (formatCronSpec t) =
           Some \<lparr>sSecond = Second t, sMinute = Minute t, sHour = Hour t, sDom = Day t,
                 sMonth = Month t\<rparr>"
proof -
  from assms have "Second t \<le> 59" "Minute t \<le> 59" "Hour t \<le> 23" "1 \<le> Day t" "Day t \<le> 31"
      "1 \<le> Month t" "Month t \<le> 12"
    using valid_time_Day [OF assms] by (auto simp: valid_time_def)
  then show ?thesis
    by (simp add: parseSpec_def Fields_formatCronSpec parse_field_decimal)
qed

subsection \<open>The job store and the cancel functions\<close>

lemma removeJobID_absent:
  "lookup_job s rid jt = None \<Longrightarrow> removeJobID s rid jt = ((0, False), s)"
  by (auto simp: lookup_job_def removeJobID_def split: option.splits)

lemma removeJobID_fst:
  "fst (removeJobID s rid jt) =
     (case lookup_job s rid jt of None \<Rightarrow> (0, False) | Some h \<Rightarrow> (h, True))"
  by (auto simp: lookup_job_def removeJobID_def Let_def split: option.splits)

lemma removeJobID_frame:
  "\<exists>js. snd (removeJobID s rid jt) = s\<lparr>jobStore := js\<rparr>"
  by (auto simp: removeJobID_def Let_def split: option.splits intro: exI [of _ "jobStore s"])

lemma entries_removeJobID [simp]: "entries (snd (removeJobID s rid jt)) = entries s"
  using removeJobID_frame [of s rid jt] by auto

lemma nextID_removeJobID [simp]: "nextID (snd (removeJobID s rid jt)) = nextID s"
  using removeJobID_frame [of s rid jt] by auto

lemma outside_removeJobID [simp]: "outside_scheduler s (snd (removeJobID s rid jt))"
  using removeJobID_frame [of s rid jt] by (auto simp: outside_scheduler_def)

lemma lookup_storeJobID:
  "lookup_job (storeJobID s rid jt h) rid' jt' =
     (if rid' = rid \<and> jt' = jt then Some h else lookup_job s rid' jt')"
  by (auto simp: lookup_job_def storeJobID_def Let_def split: option.splits)

lemma entries_storeJobID [simp]: "entries (storeJobID s rid jt h) = entries s"
  by (simp add: storeJobID_def Let_def)

lemma nextID_storeJobID [simp]: "nextID (storeJobID s rid jt h) = nextID s"
  by (simp add: storeJobID_def Let_def)

lemma outside_storeJobID [simp]: "outside_scheduler s (storeJobID s rid jt h)"
  by (simp add: storeJobID_def Let_def outside_scheduler_def)

lemma outside_refl [simp]: "outside_scheduler s s"
  by (simp add: outside_scheduler_def)

lemma outside_trans:
  "outside_scheduler s s' \<Longrightarrow> outside_scheduler s' s'' \<Longrightarrow> outside_scheduler s s''"
  by (simp add: outside_scheduler_def)

lemma handles_for_removeJobID [simp]:
  "handles_for (snd (removeJobID s rid jt)) rid' jt' = handles_for s rid' jt'"
  by (simp add: handles_for_def)

lemma handles_for_storeJobID [simp]:
  "handles_for (storeJobID s rid jt h) rid' jt' = handles_for s rid' jt'"
  by (simp add: handles_for_def)

lemma map_filter_ids:
  "map EntryID (filter (\<lambda>e. EntryID e \<noteq> h \<and> P e) es) =
     filter (\<lambda>i. i \<noteq> h) (map EntryID (filter P es))"
  by (induction es) auto

lemma handles_for_RemoveJob:
  "handles_for (RemoveJob s h) rid jt = filter (\<lambda>i. i \<noteq> h) (handles_for s rid jt)"
  by (simp add: handles_for_def RemoveJob_def map_filter_ids)

lemma lookup_RemoveJob [simp]: "lookup_job (RemoveJob s h) rid jt = lookup_job s rid jt"
  by (simp add: lookup_job_def RemoveJob_def)

lemma nextID_RemoveJob [simp]: "nextID (RemoveJob s h) = nextID s"
  by (simp add: RemoveJob_def)

lemma outside_RemoveJob [simp]: "outside_scheduler s (RemoveJob s h)"
  by (simp add: RemoveJob_def outside_scheduler_def)

text \<open>The cancel functions through their common shape.\<close>

lemma removeJobID_present:
  "lookup_job s rid jt = Some h \<Longrightarrow> \<exists>s'. removeJobID s rid jt = ((h, True), s')"
  by (auto simp: lookup_job_def removeJobID_def Let_def split: option.splits)

lemma CancelReminderSchedule_eq:
  "CancelReminderSchedule s rid = (None, cancel_job s rid jobTypeNotify)"
proof (cases "lookup_job s rid jobTypeNotify")
  case None
  then show ?thesis
    by (simp add: CancelReminderSchedule_def cancel_job_def removeJobID_absent)
next
  case (Some h)
  then obtain s' where "removeJobID s rid jobTypeNotify = ((h, True), s')"
    using removeJobID_present by blast
  with Some show ?thesis
    by (simp add: CancelReminderSchedule_def cancel_job_def)
qed

lemma CancelCleanupSchedule_eq:
  "CancelCleanupSchedule s rid = (None, cancel_job s rid jobTypeCleanup)"
proof (cases "lookup_job s rid jobTypeCleanup")
  case None
  then show ?thesis
    by (simp add: CancelCleanupSchedule_def cancel_job_def removeJobID_absent)
next
  case (Some h)
  then obtain s' where "removeJobID s rid jobTypeCleanup = ((h, True), s')"
    using removeJobID_present by blast
  with Some show ?thesis
    by (simp add: CancelCleanupSchedule_def cancel_job_def)
qed

lemma lookup_cancel_job:
  "lookup_job (cancel_job s rid jt) rid' jt' =
     (if rid' = rid \<and> jt' = jt then None else lookup_job s rid' jt')"
  by (auto simp: cancel_job_def lookup_removeJobID split: option.splits)

lemma handles_for_cancel_job:
  "handles_for (cancel_job s rid jt) rid' jt' =
     (case lookup_job s rid jt of
        None \<Rightarrow> handles_for s rid' jt'
      | Some h \<Rightarrow> filter (\<lambda>i. i \<noteq> h) (handles_for s rid' jt'))"
  by (auto simp: cancel_job_def handles_for_RemoveJob split: option.splits)

lemma nextID_cancel_job [simp]: "nextID (cancel_job s rid jt) = nextID s"
  by (simp add: cancel_job_def split: option.splits)

lemma outside_cancel_job [simp]: "outside_scheduler s (cancel_job s rid jt)"
  by (auto simp: cancel_job_def split: option.splits
           intro: outside_trans [OF outside_removeJobID outside_RemoveJob])

lemma cancel_job_absent: "lookup_job s rid jt = None \<Longrightarrow> cancel_job s rid jt = s"
  by (simp add: cancel_job_def)

lemma set_entries_cancel_job: "set (entries (cancel_job s rid jt)) \<subseteq> set (entries s)"
  by (auto simp: cancel_job_def RemoveJob_def split: option.splits)

lemma entries_cancel_job:
  "entries (cancel_job s rid jt) =
     (case lookup_job s rid jt of
        None \<Rightarrow> entries s
      | Some h \<Rightarrow> filter (\<lambda>e. EntryID e \<noteq> h) (entries s))"
  by (auto simp: cancel_job_def RemoveJob_def split: option.splits)

subsection \<open>The engine and the job store stay in step\<close>

lemma handle_key_unique:
  assumes "distinct (map EntryID (entries s))"
    and "h \<in> set (handles_for s rid jt)" and "h \<in> set (handles_for s rid' jt')"
  shows "rid' = rid \<and> jt' = jt"
proof -
  from assms(2) obtain e where e: "e \<in> set (entries s)" "EntryID e = h"
      "job_key (Job e) = (rid, jt)"
    by (auto simp: handles_for_def)
  from assms(3) obtain e' where e': "e' \<in> set (entries s)" "EntryID e' = h"
      "job_key (Job e') = (rid', jt')"
    by (auto simp: handles_for_def)
  from assms(1) e(1,2) e'(1,2) have "e = e'"
    by (auto simp: distinct_map dest: inj_onD)
  with e(3) e'(3) show ?thesis by simp
qed

lemma engine_ok_cancel_job:
  assumes "engine_ok s"
  shows "engine_ok (cancel_job s rid jt)"
proof (cases "lookup_job s rid jt")
  case None
  with assms show ?thesis by (simp add: cancel_job_absent)
next
  case (Some h)
  from assms have d: "distinct (map EntryID (entries s))"
    and b: "\<forall>e \<in> set (entries s). EntryID e \<le> nextID s"
    and r: "\<And>rid' jt' h'. lookup_job s rid' jt' = Some h' \<Longrightarrow> h' \<in> set (handles_for s rid' jt')"
    by (auto simp: engine_ok_def)
  have h: "h \<in> set (handles_for s rid jt)" using r Some by blast
  have "distinct (map EntryID (entries (cancel_job s rid jt)))"
    using d Some by (simp add: entries_cancel_job distinct_map_filter)
  moreover have "\<forall>e \<in> set (entries (cancel_job s rid jt)). EntryID e \<le> nextID (cancel_job s rid jt)"
    using b set_entries_cancel_job [of s rid jt] by auto
  moreover have "h' \<in> set (handles_for (cancel_job s rid jt) rid' jt')"
    if "lookup_job (cancel_job s rid jt) rid' jt' = Some h'" for rid' jt' h'
  proof -
    from that have ne: "\<not> (rid' = rid \<and> jt' = jt)" and l: "lookup_job s rid' jt' = Some h'"
      by (auto simp: lookup_cancel_job split: if_splits)
    from r [OF l] have h': "h' \<in> set (handles_for s rid' jt')" .
    have "h' \<noteq> h" using handle_key_unique [OF d h, of rid' jt'] h' ne by auto
    with h' Some show ?thesis by (simp add: handles_for_cancel_job)
  qed
  ultimately show ?thesis by (simp add: engine_ok_def)
qed

lemma key_ok_cancel_job:
  assumes "engine_ok s" and "key_ok s rid' jt'"
  shows "key_ok (cancel_job s rid jt) rid' jt'"
proof (cases "lookup_job s rid jt")
  case None
  with assms show ?thesis by (simp add: cancel_job_absent)
next
  case (Some h)
  from assms(1) have d: "distinct (map EntryID (entries s))"
    and r: "\<And>rid' jt' h'. lookup_job s rid' jt' = Some h' \<Longrightarrow> h' \<in> set (handles_for s rid' jt')"
    by (auto simp: engine_ok_def)
  have h: "h \<in> set (handles_for s rid jt)" using r Some by blast
  show ?thesis
  proof (cases "rid' = rid \<and> jt' = jt")
    case True
    with assms(2) Some show ?thesis
      by (simp add: key_ok_def handles_for_cancel_job lookup_cancel_job)
  next
    case False
    have "h \<notin> set (handles_for s rid' jt')"
      using handle_key_unique [OF d h, of rid' jt'] False by auto
    then have "filter (\<lambda>i. i \<noteq> h) (handles_for s rid' jt') = handles_for s rid' jt'"
      by (simp add: filter_id_conv) blast
    with assms(2) Some False show ?thesis
      by (auto simp: key_ok_def handles_for_cancel_job lookup_cancel_job)
  qed
qed

lemma lookup_job_entries_update [simp]:
  "lookup_job (s\<lparr>entries := es\<rparr>) rid jt = lookup_job s rid jt"
  by (simp add: lookup_job_def)

lemma lookup_job_nextID_update [simp]:
  "lookup_job (s\<lparr>nextID := n\<rparr>) rid jt = lookup_job s rid jt"
  by (simp add: lookup_job_def)

lemma AddJob_ok:
  "parseSpec spec = Some sched \<Longrightarrow>
     AddJob s spec cmd =
       (Some (nextID s + 1),
        s\<lparr>nextID := nextID s + 1,
          entries := entries s @ [\<lparr>EntryID = nextID s + 1, Schedule = sched, Job = cmd\<rparr>]\<rparr>)"
  by (simp add: AddJob_def Let_def)

lemma AddJob_error: "parseSpec spec = None \<Longrightarrow> AddJob s spec cmd = (None, s)"
  by (simp add: AddJob_def)

lemma replace_job_error:
  "parseSpec spec = None \<Longrightarrow>
     replace_job s rid jt spec cmd = (Some ErrScheduling, cancel_job s rid jt)"
  by (simp add: replace_job_def AddJob_error)

lemma replace_job_ok:
  assumes "parseSpec spec = Some sched"
  shows "fst (replace_job s rid jt spec cmd) = None"
    and "lookup_job (snd (replace_job s rid jt spec cmd)) rid' jt' =
           (if rid' = rid \<and> jt' = jt then Some (nextID s + 1) else lookup_job s rid' jt')"
    and "entries (snd (replace_job s rid jt spec cmd)) =
           entries (cancel_job s rid jt) @
             [\<lparr>EntryID = nextID s + 1, Schedule = sched, Job = cmd\<rparr>]"
    and "nextID (snd (replace_job s rid jt spec cmd)) = nextID s + 1"
    and "outside_scheduler s (snd (replace_job s rid jt spec cmd))"
proof -
  let ?c = "cancel_job s rid jt"
  let ?a = "?c\<lparr>nextID := nextID s + 1,
          entries := entries ?c @ [\<lparr>EntryID = nextID s + 1, Schedule = sched, Job = cmd\<rparr>]\<rparr>"
  have eq: "replace_job s rid jt spec cmd = (None, storeJobID ?a rid jt (nextID s + 1))"
    using AddJob_ok [OF assms, of ?c cmd] by (simp add: replace_job_def)
  show "fst (replace_job s rid jt spec cmd) = None" by (simp add: eq)
  show "lookup_job (snd (replace_job s rid jt spec cmd)) rid' jt' =
           (if rid' = rid \<and> jt' = jt then Some (nextID s + 1) else lookup_job s rid' jt')"
    by (simp add: eq lookup_storeJobID lookup_cancel_job)
  show "entries (snd (replace_job s rid jt spec cmd)) =
           entries ?c @ [\<lparr>EntryID = nextID s + 1, Schedule = sched, Job = cmd\<rparr>]"
    by (simp add: eq)
  show "nextID (snd (replace_job s rid jt spec cmd)) = nextID s + 1"
    by (simp add: eq)
  have "outside_scheduler ?c ?a" by (simp add: outside_scheduler_def)
  then have "outside_scheduler s ?a" using outside_trans [OF outside_cancel_job] by blast
  then show "outside_scheduler s (snd (replace_job s rid jt spec cmd))"
    unfolding eq snd_conv by (rule outside_trans) simp
qed

lemma handles_for_replace_job:
  assumes "parseSpec spec = Some sched"
  shows "handles_for (snd (replace_job s rid jt spec cmd)) rid' jt' =
           handles_for (cancel_job s rid jt) rid' jt' @
             (if job_key cmd = (rid', jt') then [nextID s + 1] else [])"
  by (simp add: handles_for_def replace_job_ok(3) [OF assms])

lemma engine_ok_replace_job:
  assumes "engine_ok s" and "job_key cmd = (rid, jt)"
  shows "engine_ok (snd (replace_job s rid jt spec cmd))"
proof (cases "parseSpec spec")
  case None
  with assms(1) show ?thesis by (simp add: replace_job_error engine_ok_cancel_job)
next
  case (Some sched)
  let ?c = "cancel_job s rid jt"
  let ?s' = "snd (replace_job s rid jt spec cmd)"
  have c: "engine_ok ?c" using assms(1) by (rule engine_ok_cancel_job)
  then have d: "distinct (map EntryID (entries ?c))"
    and b: "\<forall>e \<in> set (entries ?c). EntryID e \<le> nextID s"
    and r: "\<And>rid' jt' h'. lookup_job ?c rid' jt' = Some h' \<Longrightarrow> h' \<in> set (handles_for ?c rid' jt')"
    by (auto simp: engine_ok_def)
  have "distinct (map EntryID (entries ?s'))"
    using d b by (auto simp: replace_job_ok(3) [OF Some])
  moreover have "\<forall>e \<in> set (entries ?s'). EntryID e \<le> nextID ?s'"
    using b by (auto simp: replace_job_ok(3,4) [OF Some])
  moreover have "h' \<in> set (handles_for ?s' rid' jt')"
    if "lookup_job ?s' rid' jt' = Some h'" for rid' jt' h'
  proof (cases "rid' = rid \<and> jt' = jt")
    case True
    with that assms(2) show ?thesis
      by (simp add: replace_job_ok(2) [OF Some] handles_for_replace_job [OF Some])
  next
    case False
    with that have "lookup_job ?c rid' jt' = Some h'"
      by (simp add: replace_job_ok(2) [OF Some] lookup_cancel_job)
    from r [OF this] show ?thesis
      by (simp add: handles_for_replace_job [OF Some])
  qed
  ultimately show ?thesis by (simp add: engine_ok_def)
qed

lemma key_ok_replace_job:
  assumes "engine_ok s" and "job_key cmd = (rid, jt)" and "key_ok s rid' jt'"
  shows "key_ok (snd (replace_job s rid jt spec cmd)) rid' jt'"
proof (cases "parseSpec spec")
  case None
  with assms show ?thesis by (simp add: replace_job_error key_ok_cancel_job)
next
  case (Some sched)
  have c: "key_ok (cancel_job s rid jt) rid' jt'"
    using assms(1,3) by (rule key_ok_cancel_job)
  show ?thesis
  proof (cases "rid' = rid \<and> jt' = jt")
    case True
    with c assms(2) show ?thesis
      by (simp add: key_ok_def handles_for_replace_job [OF Some] replace_job_ok(2) [OF Some]
                    lookup_cancel_job)
  next
    case False
    with c assms(2) show ?thesis
      by (auto simp: key_ok_def handles_for_replace_job [OF Some] replace_job_ok(2) [OF Some]
                    lookup_cancel_job)
  qed
qed

lemma ScheduleReminder_eq:
  "ScheduleReminder s now reminder =
     (if \<not> handleNotificationFunc s then (Some ErrInternalServer, s)
      else if IsZero (RemindTime reminder) \<or> Before (RemindTime reminder) now
      then (Some ErrScheduling, s)
      else replace_job s (ID reminder) jobTypeNotify (formatCronSpec (RemindTime reminder))
             (NotifyJob (ID reminder)))"
  by (simp add: ScheduleReminder_def replace_job_def CancelReminderSchedule_eq Let_def)

lemma ScheduleReminderCleanup_eq:
  "ScheduleReminderCleanup s now reminderID =
     (if \<not> handleCleanupFunc s then (Some ErrInternalServer, s)
      else replace_job s reminderID jobTypeCleanup
             (formatCronSpec (Add now cleanupGracePeriod)) (CleanupJob reminderID))"
  by (simp add: ScheduleReminderCleanup_def replace_job_def CancelCleanupSchedule_eq Let_def)

lemma engine_ok_do_call: "engine_ok s \<Longrightarrow> engine_ok (do_call s c)"
  by (cases c)
     (simp_all add: ScheduleReminder_eq ScheduleReminderCleanup_eq CancelReminderSchedule_eq
        CancelCleanupSchedule_eq engine_ok_replace_job engine_ok_cancel_job)

lemma key_ok_do_call: "engine_ok s \<Longrightarrow> key_ok s rid jt \<Longrightarrow> key_ok (do_call s c) rid jt"
  by (cases c)
     (simp_all add: ScheduleReminder_eq ScheduleReminderCleanup_eq CancelReminderSchedule_eq
        CancelCleanupSchedule_eq key_ok_replace_job key_ok_cancel_job)

lemma run_calls_ok:
  "engine_ok s \<Longrightarrow> key_ok s rid jt \<Longrightarrow>
     engine_ok (run_calls s cs) \<and> key_ok (run_calls s cs) rid jt"
  unfolding run_calls_def
  by (induction cs arbitrary: s) (simp_all add: engine_ok_do_call key_ok_do_call)

lemma fresh_lookup: "fresh_scheduler s \<Longrightarrow> lookup_job s rid jt = None"
  by (auto simp: fresh_scheduler_def lookup_job_def split: option.splits)

lemma fresh_engine_ok: "fresh_scheduler s \<Longrightarrow> engine_ok s"
  by (simp add: engine_ok_def fresh_lookup) (simp add: fresh_scheduler_def)

lemma fresh_key_ok: "fresh_scheduler s \<Longrightarrow> key_ok s rid jt"
  by (simp add: key_ok_def fresh_lookup) (simp add: fresh_scheduler_def handles_for_def)

lemma handles_for_cancel_other:
  assumes "engine_ok s" and "\<not> (rid' = rid \<and> jt' = jt)"
  shows "handles_for (cancel_job s rid jt) rid' jt' = handles_for s rid' jt'"
proof (cases "lookup_job s rid jt")
  case None
  then show ?thesis by (simp add: cancel_job_absent)
next
  case (Some h)
  from assms(1) have d: "distinct (map EntryID (entries s))"
    and h: "h \<in> set (handles_for s rid jt)"
    using Some by (auto simp: engine_ok_def)
  have "h \<notin> set (handles_for s rid' jt')"
    using handle_key_unique [OF d h, of rid' jt'] assms(2) by auto
  then have "filter (\<lambda>i. i \<noteq> h) (handles_for s rid' jt') = handles_for s rid' jt'"
    by (simp add: filter_id_conv) blast
  with Some show ?thesis by (simp add: handles_for_cancel_job)
qed

lemma stored_handle_bound:
  assumes "engine_ok s" and "lookup_job s rid jt = Some h"
  shows "h \<le> nextID s"
proof -
  from assms have "h \<in> set (handles_for s rid jt)" by (auto simp: engine_ok_def)
  then obtain e where "e \<in> set (entries s)" "EntryID e = h" by (auto simp: handles_for_def)
  with assms(1) show ?thesis by (auto simp: engine_ok_def)
qed

lemma replace_job_drops_old:
  assumes "engine_ok s" and "lookup_job s rid jt = Some h"
  shows "h \<notin> EntryID ` set (entries (snd (replace_job s rid jt spec cmd)))"
proof -
  have c: "h \<notin> EntryID ` set (entries (cancel_job s rid jt))"
    using assms(2) by (auto simp: entries_cancel_job)
  have b: "h \<le> nextID s" using assms by (rule stored_handle_bound)
  show ?thesis
  proof (cases "parseSpec spec")
    case None
    with c show ?thesis by (simp add: replace_job_error)
  next
    case (Some sched)
    with c b show ?thesis by (auto simp: replace_job_ok(3) [OF Some])
  qed
qed

lemma valid_time_at:
  "valid_time (at y m d h mi sec) =
     (1 \<le> y \<and> 1 \<le> m \<and> m \<le> 12 \<and> 1 \<le> d \<and> d \<le> daysIn m y \<and> h < 24 \<and> mi < 60 \<and> sec < 60)"
  by (simp add: valid_time_def at_def)

lemma schedule_cleanup_example: "snd (ScheduleReminderCleanup world0 (at 2026 3 1 9 0 0) 2) = world_one_cleanup"
  by (simp add: ScheduleReminderCleanup_def CancelCleanupSchedule_def removeJobID_def
        world0_def world_one_cleanup_def AddJob_def storeJobID_def Let_def
        parseSpec_formatCronSpec valid_time_def daysIn_def
        Add_def at_def cleanupGracePeriod_def next_day_def)

lemma engine_ok_world_one_cleanup: "engine_ok world_one_cleanup"
  by (auto simp: engine_ok_def lookup_job_def handles_for_def world_one_cleanup_def world0_def
           jobTypeCleanup_def split: if_splits)

lemma first_submit:
  "snd (ScheduleReminder world0 (at 2026 3 1 9 0 0) (milk 1 (at 2026 3 5 12 30 0))) = world_after_first"
  by (simp add: ScheduleReminder_def CancelReminderSchedule_def removeJobID_def
        world0_def world_after_first_def AddJob_def storeJobID_def Let_def sched_1230_def
        parseSpec_formatCronSpec valid_time_def daysIn_def milk_def IsZero_def Before_def
        zeroTime_def at_def)

subsection \<open>What a successful schedule call leaves behind\<close>

lemma daysIn_pos: "1 \<le> daysIn m y"
  by (simp add: daysIn_def)

lemma valid_next_day: "valid_time t \<Longrightarrow> valid_time (next_day t)"
  using daysIn_pos [of 1 "Year t + 1"] daysIn_pos [of "Month t + 1" "Year t"]
  by (auto simp: valid_time_def next_day_def)

lemma valid_add_days: "valid_time t \<Longrightarrow> valid_time (add_days n t)"
  by (induction n arbitrary: t) (simp_all add: valid_next_day)

lemma valid_Add: "valid_time t \<Longrightarrow> valid_time (Add t d)"
proof -
  assume "valid_time t"
  then have "valid_time (add_days ((Hour t * 3600 + Minute t * 60 + Second t + d) div 86400) t)"
    by (rule valid_add_days)
  then show ?thesis
    by (simp add: Add_def Let_def valid_time_def less_mult_imp_div_less)
qed

lemma replace_job_handles:
  assumes "engine_ok s" and "key_ok s rid jt" and "job_key cmd = (rid, jt)"
    and "parseSpec spec = Some sched"
  shows "handles_for (snd (replace_job s rid jt spec cmd)) rid jt = [nextID s + 1]"
proof -
  have "key_ok (cancel_job s rid jt) rid jt"
    using assms(1,2) by (rule key_ok_cancel_job)
  then have "handles_for (cancel_job s rid jt) rid jt = []"
    by (simp add: key_ok_def lookup_cancel_job)
  with assms(3) show ?thesis
    by (simp add: handles_for_replace_job [OF assms(4)])
qed

lemma replace_job_success:
  "fst (replace_job s rid jt spec cmd) = None \<Longrightarrow> \<exists>sched. parseSpec spec = Some sched"
  by (cases "parseSpec spec") (simp_all add: replace_job_error)

lemma replace_job_entry:
  assumes "parseSpec spec = Some sched"
  shows "\<lparr>EntryID = nextID s + 1, Schedule = sched, Job = cmd\<rparr>
           \<in> set (entries (snd (replace_job s rid jt spec cmd)))"
  by (simp add: replace_job_ok(3) [OF assms])

subsection \<open>Cancelling\<close>

text \<open>
  Claim C8. Cancelling the notification or the cleanup job of a reminder that has no job
  of that type stored (never scheduled, removed by its own callback, or cancelled before)
  returns no error and leaves the whole state as it was. Either cancel function always
  returns no error, and it leaves the handle stored under every other reminder or job type
  as it was; when the engine and the job store are in step, the engine's entries for every
  other key stay as well.
\<close>

theorem cancel_absent_is_noop:
  "(lookup_job s rid jobTypeNotify = None \<longrightarrow> CancelReminderSchedule s rid = (None, s)) \<and>
   (lookup_job s rid jobTypeCleanup = None \<longrightarrow> CancelCleanupSchedule s rid = (None, s)) \<and>
   fst (CancelReminderSchedule s rid) = None \<and> fst (CancelCleanupSchedule s rid) = None \<and>
   (\<not> (rid' = rid \<and> jt' = jobTypeNotify) \<longrightarrow>
      lookup_job (snd (CancelReminderSchedule s rid)) rid' jt' = lookup_job s rid' jt' \<and>
      (engine_ok s \<longrightarrow>
         handles_for (snd (CancelReminderSchedule s rid)) rid' jt' = handles_for s rid' jt')) \<and>
   (\<not> (rid' = rid \<and> jt' = jobTypeCleanup) \<longrightarrow>
      lookup_job (snd (CancelCleanupSchedule s rid)) rid' jt' = lookup_job s rid' jt' \<and>
      (engine_ok s \<longrightarrow>
         handles_for (snd (CancelCleanupSchedule s rid)) rid' jt' = handles_for s rid' jt'))"
  by (simp add: CancelReminderSchedule_eq CancelCleanupSchedule_eq cancel_job_absent
        lookup_cancel_job handles_for_cancel_other)

theorem cancel_absent_is_noop_witness:
  "lookup_job world_one_cleanup 1 jobTypeNotify = None \<and>
   lookup_job world_one_cleanup 1 jobTypeCleanup = None \<and>
   engine_ok world_one_cleanup \<and>
   CancelReminderSchedule world_one_cleanup 1 = (None, world_one_cleanup) \<and>
   CancelCleanupSchedule world_one_cleanup 1 = (None, world_one_cleanup) \<and>
   lookup_job (snd (CancelCleanupSchedule world_one_cleanup 1)) 2 jobTypeCleanup = Some 1 \<and>
   handles_for (snd (CancelReminderSchedule world_one_cleanup 1)) 2 jobTypeCleanup = [1]"
proof -
  have a: "lookup_job world_one_cleanup 1 jobTypeNotify = None"
    and b: "lookup_job world_one_cleanup 1 jobTypeCleanup = None"
    and c: "lookup_job world_one_cleanup 2 jobTypeCleanup = Some 1"
    and d: "handles_for world_one_cleanup 2 jobTypeCleanup = [1]"
    by (simp_all add: lookup_job_def handles_for_def world_one_cleanup_def world0_def)
  have e: "jobTypeCleanup \<noteq> jobTypeNotify"
    by (simp add: jobTypeCleanup_def jobTypeNotify_def)
  show ?thesis
    using cancel_absent_is_noop [of world_one_cleanup 1 2 jobTypeCleanup]
      a b c d e engine_ok_world_one_cleanup
    by simp
qed

subsection \<open>One job per reminder and job type\<close>

lemma cleanup_after_first:
  "snd (ScheduleReminderCleanup world_after_first (at 2026 3 1 9 0 1) 1) = world_both"
  by (simp add: ScheduleReminderCleanup_def CancelCleanupSchedule_def removeJobID_def
        world0_def world_after_first_def world_both_def AddJob_def storeJobID_def Let_def
        sched_cleanup_0302_def parseSpec_formatCronSpec valid_time_def daysIn_def
        Add_def at_def cleanupGracePeriod_def next_day_def jobTypeNotify_def jobTypeCleanup_def
        numeral_2_eq_2 fun_upd_twist)

lemma run_notify_then_cleanup: "run_calls world0 notify_then_cleanup = world_both"
  by (simp only: run_calls_def notify_then_cleanup_def foldl.simps do_call.simps first_submit
        cleanup_after_first)

text \<open>
  Claim C1. Start from a scheduler that has stored no job and run any sequence of
  \<^verbatim>\<open>ScheduleReminder\<close>, \<^verbatim>\<open>ScheduleReminderCleanup\<close>, \<^verbatim>\<open>CancelReminderSchedule\<close> and
  \<^verbatim>\<open>CancelCleanupSchedule\<close> calls. Then for every reminder id and job type the entries
  the engine holds for that key are exactly the one handle the job store has for it, or
  none when it has none: at most one. A further \<^verbatim>\<open>ScheduleReminder\<close> succeeds when the
  notification handler is set and the time is a calendar time, not zero and not before
  the clock; \<^verbatim>\<open>ScheduleReminderCleanup\<close> succeeds when the cleanup handler is set. A
  schedule call that succeeds stores a new handle for its key, the engine then holds
  exactly the entry of that new handle for the key, and the handle stored before, if
  there was one, is a different one whose entry has left the engine.
\<close>

theorem one_live_job_per_key:
  assumes "fresh_scheduler s"
  shows "handles_for (run_calls s cs) reminderID jobType =
           (case lookup_job (run_calls s cs) reminderID jobType of None \<Rightarrow> [] | Some h \<Rightarrow> [h]) \<and>
         length (handles_for (run_calls s cs) reminderID jobType) \<le> 1 \<and>
         (\<forall>now reminder.
            (handleNotificationFunc (run_calls s cs) \<and> valid_time (RemindTime reminder) \<and>
             \<not> IsZero (RemindTime reminder) \<and> \<not> Before (RemindTime reminder) now \<longrightarrow>
               fst (ScheduleReminder (run_calls s cs) now reminder) = None) \<and>
            (fst (ScheduleReminder (run_calls s cs) now reminder) = None \<longrightarrow>
               lookup_job (snd (ScheduleReminder (run_calls s cs) now reminder)) (ID reminder)
                 jobTypeNotify = Some (nextID (run_calls s cs) + 1) \<and>
               handles_for (snd (ScheduleReminder (run_calls s cs) now reminder)) (ID reminder)
                 jobTypeNotify = [nextID (run_calls s cs) + 1] \<and>
               (\<forall>h. lookup_job (run_calls s cs) (ID reminder) jobTypeNotify = Some h \<longrightarrow>
                  h \<noteq> nextID (run_calls s cs) + 1 \<and>
                  h \<notin> EntryID ` set (entries (snd (ScheduleReminder (run_calls s cs) now
                                                     reminder)))))) \<and>
         (\<forall>now.
            (handleCleanupFunc (run_calls s cs) \<and> valid_time now \<longrightarrow>
               fst (ScheduleReminderCleanup (run_calls s cs) now reminderID) = None) \<and>
            (fst (ScheduleReminderCleanup (run_calls s cs) now reminderID) = None \<longrightarrow>
               lookup_job (snd (ScheduleReminderCleanup (run_calls s cs) now reminderID))
                 reminderID jobTypeCleanup = Some (nextID (run_calls s cs) + 1) \<and>
               handles_for (snd (ScheduleReminderCleanup (run_calls s cs) now reminderID))
                 reminderID jobTypeCleanup = [nextID (run_calls s cs) + 1] \<and>
               (\<forall>h. lookup_job (run_calls s cs) reminderID jobTypeCleanup = Some h \<longrightarrow>
                  h \<noteq> nextID (run_calls s cs) + 1 \<and>
                  h \<notin> EntryID ` set (entries (snd (ScheduleReminderCleanup (run_calls s cs) now
                                                     reminderID))))))"
proof -
  let ?s = "run_calls s cs"
  have ok: "engine_ok ?s" and key: "\<And>rid jt. key_ok ?s rid jt"
    using run_calls_ok [OF fresh_engine_ok [OF assms] fresh_key_ok [OF assms]] by blast+
  from key have 1: "handles_for ?s reminderID jobType =
      (case lookup_job ?s reminderID jobType of None \<Rightarrow> [] | Some h \<Rightarrow> [h])"
    by (simp add: key_ok_def)
  then have 2: "length (handles_for ?s reminderID jobType) \<le> 1"
    by (simp split: option.splits)
  have n1: "fst (ScheduleReminder ?s now reminder) = None"
    if "handleNotificationFunc ?s" "valid_time (RemindTime reminder)"
      "\<not> IsZero (RemindTime reminder)" "\<not> Before (RemindTime reminder) now" for now reminder
    using that replace_job_ok(1) [OF parseSpec_formatCronSpec [OF that(2)]]
    by (simp add: ScheduleReminder_eq)
  have n2: "lookup_job (snd (ScheduleReminder ?s now reminder)) (ID reminder) jobTypeNotify =
              Some (nextID ?s + 1) \<and>
            handles_for (snd (ScheduleReminder ?s now reminder)) (ID reminder) jobTypeNotify =
              [nextID ?s + 1] \<and>
            (\<forall>h. lookup_job ?s (ID reminder) jobTypeNotify = Some h \<longrightarrow>
               h \<noteq> nextID ?s + 1 \<and>
               h \<notin> EntryID ` set (entries (snd (ScheduleReminder ?s now reminder))))"
    if succ: "fst (ScheduleReminder ?s now reminder) = None" for now reminder
  proof -
    let ?spec = "formatCronSpec (RemindTime reminder)"
    let ?r = "replace_job ?s (ID reminder) jobTypeNotify ?spec (NotifyJob (ID reminder))"
    from succ have eq: "ScheduleReminder ?s now reminder = ?r"
      by (simp add: ScheduleReminder_eq split: if_splits)
    with succ obtain sched where p: "parseSpec ?spec = Some sched"
      using replace_job_success [of ?s "ID reminder" jobTypeNotify ?spec "NotifyJob (ID reminder)"]
      by auto
    have a: "lookup_job (snd ?r) (ID reminder) jobTypeNotify = Some (nextID ?s + 1)"
      by (simp add: replace_job_ok(2) [OF p])
    have b: "handles_for (snd ?r) (ID reminder) jobTypeNotify = [nextID ?s + 1]"
      by (rule replace_job_handles [OF ok key _ p]) simp
    have c: "h \<noteq> nextID ?s + 1 \<and> h \<notin> EntryID ` set (entries (snd ?r))"
      if "lookup_job ?s (ID reminder) jobTypeNotify = Some h" for h
      using stored_handle_bound [OF ok that] replace_job_drops_old [OF ok that] by simp
    from a b c show ?thesis unfolding eq by blast
  qed
  have c1: "fst (ScheduleReminderCleanup ?s now reminderID) = None"
    if "handleCleanupFunc ?s" "valid_time now" for now
    using that replace_job_ok(1) [OF parseSpec_formatCronSpec [OF valid_Add [OF that(2)]]]
    by (simp add: ScheduleReminderCleanup_eq)
  have c2: "lookup_job (snd (ScheduleReminderCleanup ?s now reminderID)) reminderID
              jobTypeCleanup = Some (nextID ?s + 1) \<and>
            handles_for (snd (ScheduleReminderCleanup ?s now reminderID)) reminderID
              jobTypeCleanup = [nextID ?s + 1] \<and>
            (\<forall>h. lookup_job ?s reminderID jobTypeCleanup = Some h \<longrightarrow>
               h \<noteq> nextID ?s + 1 \<and>
               h \<notin> EntryID ` set (entries (snd (ScheduleReminderCleanup ?s now reminderID))))"
    if succ: "fst (ScheduleReminderCleanup ?s now reminderID) = None" for now
  proof -
    let ?spec = "formatCronSpec (Add now cleanupGracePeriod)"
    let ?r = "replace_job ?s reminderID jobTypeCleanup ?spec (CleanupJob reminderID)"
    from succ have eq: "ScheduleReminderCleanup ?s now reminderID = ?r"
      by (simp add: ScheduleReminderCleanup_eq split: if_splits)
    with succ obtain sched where p: "parseSpec ?spec = Some sched"
      using replace_job_success [of ?s reminderID jobTypeCleanup ?spec "CleanupJob reminderID"]
      by auto
    have a: "lookup_job (snd ?r) reminderID jobTypeCleanup = Some (nextID ?s + 1)"
      by (simp add: replace_job_ok(2) [OF p])
    have b: "handles_for (snd ?r) reminderID jobTypeCleanup = [nextID ?s + 1]"
      by (rule replace_job_handles [OF ok key _ p]) simp
    have c: "h \<noteq> nextID ?s + 1 \<and> h \<notin> EntryID ` set (entries (snd ?r))"
      if "lookup_job ?s reminderID jobTypeCleanup = Some h" for h
      using stored_handle_bound [OF ok that] replace_job_drops_old [OF ok that] by simp
    from a b c show ?thesis unfolding eq by blast
  qed
  from 1 2 n1 n2 c1 c2 show ?thesis by blast
qed

theorem one_live_job_per_key_witness:
  "fresh_scheduler world0 \<and>
   lookup_job (run_calls world0 notify_then_cleanup) 1 jobTypeNotify = Some 1 \<and>
   lookup_job (run_calls world0 notify_then_cleanup) 1 jobTypeCleanup = Some 2 \<and>
   handles_for (run_calls world0 notify_then_cleanup) 1 jobTypeNotify = [1] \<and>
   handles_for (run_calls world0 notify_then_cleanup) 1 jobTypeCleanup = [2] \<and>
   fst (ScheduleReminder (run_calls world0 notify_then_cleanup) (at 2026 3 1 9 0 2)
          (milk 1 (at 2026 3 5 12 30 0))) = None \<and>
   lookup_job (snd (ScheduleReminder (run_calls world0 notify_then_cleanup) (at 2026 3 1 9 0 2)
          (milk 1 (at 2026 3 5 12 30 0)))) 1 jobTypeNotify = Some 3 \<and>
   handles_for (snd (ScheduleReminder (run_calls world0 notify_then_cleanup) (at 2026 3 1 9 0 2)
          (milk 1 (at 2026 3 5 12 30 0)))) 1 jobTypeNotify = [3] \<and>
   1 \<notin> EntryID ` set (entries (snd (ScheduleReminder (run_calls world0 notify_then_cleanup)
          (at 2026 3 1 9 0 2) (milk 1 (at 2026 3 5 12 30 0))))) \<and>
   fst (ScheduleReminderCleanup (run_calls world0 notify_then_cleanup) (at 2026 3 1 9 0 2) 1) =
     None \<and>
   lookup_job (snd (ScheduleReminderCleanup (run_calls world0 notify_then_cleanup)
          (at 2026 3 1 9 0 2) 1)) 1 jobTypeCleanup = Some 3 \<and>
   handles_for (snd (ScheduleReminderCleanup (run_calls world0 notify_then_cleanup)
          (at 2026 3 1 9 0 2) 1)) 1 jobTypeCleanup = [3] \<and>
   2 \<notin> EntryID ` set (entries (snd (ScheduleReminderCleanup
          (run_calls world0 notify_then_cleanup) (at 2026 3 1 9 0 2) 1)))"
proof -
  let ?s = "run_calls world0 notify_then_cleanup"
  let ?r = "milk 1 (at 2026 3 5 12 30 0)"
  let ?now = "at 2026 3 1 9 0 2"
  have f: "fresh_scheduler world0"
    by (simp add: fresh_scheduler_def world0_def)
  have ln: "lookup_job ?s 1 jobTypeNotify = Some 1"
    and lc: "lookup_job ?s 1 jobTypeCleanup = Some 2"
    and nx: "nextID ?s + 1 = 3"
    and hn: "handleNotificationFunc ?s" and hc: "handleCleanupFunc ?s"
    unfolding run_notify_then_cleanup
    by (simp_all add: lookup_job_def world_both_def world0_def
          jobTypeNotify_def jobTypeCleanup_def)
  have i: "ID ?r = 1" and rt: "RemindTime ?r = at 2026 3 5 12 30 0"
    by (simp_all add: milk_def)
  have v: "valid_time (at 2026 3 5 12 30 0)" and vn: "valid_time ?now"
    by (simp_all add: valid_time_at daysIn_def)
  have z: "\<not> IsZero (at 2026 3 5 12 30 0)" and b: "\<not> Before (at 2026 3 5 12 30 0) ?now"
    by (simp_all add: IsZero_def Before_def zeroTime_def at_def)
  note n = one_live_job_per_key [OF f, of notify_then_cleanup 1 jobTypeNotify]
  note c = one_live_job_per_key [OF f, of notify_then_cleanup 1 jobTypeCleanup]
  from n ln have n0: "handles_for ?s 1 jobTypeNotify = [1]" by simp
  from c lc have c0: "handles_for ?s 1 jobTypeCleanup = [2]" by simp
  from n have ns: "fst (ScheduleReminder ?s ?now ?r) = None"
    using hn v z b rt by metis
  from n ns have n1: "lookup_job (snd (ScheduleReminder ?s ?now ?r)) 1 jobTypeNotify = Some 3"
    and n2: "handles_for (snd (ScheduleReminder ?s ?now ?r)) 1 jobTypeNotify = [3]"
    and n3: "1 \<notin> EntryID ` set (entries (snd (ScheduleReminder ?s ?now ?r)))"
    using i ln nx by metis+
  from c have cs: "fst (ScheduleReminderCleanup ?s ?now 1) = None"
    using hc vn by metis
  from c cs have c1: "lookup_job (snd (ScheduleReminderCleanup ?s ?now 1)) 1 jobTypeCleanup = Some 3"
    and c2: "handles_for (snd (ScheduleReminderCleanup ?s ?now 1)) 1 jobTypeCleanup = [3]"
    and c3: "2 \<notin> EntryID ` set (entries (snd (ScheduleReminderCleanup ?s ?now 1)))"
    using lc nx by metis+
  from f ln lc n0 c0 ns n1 n2 n3 cs c1 c2 c3 show ?thesis by blast
qed

lemma parseSpec_schedule_of: "valid_time t \<Longrightarrow> parseSpec (formatCronSpec t) = Some (schedule_of t)"
  by (simp add: parseSpec_formatCronSpec schedule_of_def)

lemma due_schedule_of: "due t \<lparr>EntryID = i, Schedule = schedule_of t, Job = j\<rparr>"
  by (simp add: due_def schedule_of_def)

subsection \<open>What ScheduleReminder accepts\<close>

text \<open>
  Claim C2, as the code has it. For a reminder whose time is a calendar time,
  \<^verbatim>\<open>ScheduleReminder\<close> fails exactly when the notification handler is not set (the
  internal-server error) or the time is zero or strictly before the clock (the scheduling
  error), and a failing call returns the state it was given: job store, engine and tables
  untouched. Otherwise the call succeeds, a time equal to the clock included: the job
  store holds a new handle for the reminder's notification, the engine holds the entry of
  that handle with the second, minute, hour, day and month of the reminder's time, which
  is due at that time, and no table is written.
\<close>

theorem ScheduleReminder_outcomes:
  assumes "valid_time (RemindTime reminder)"
  shows "(\<not> handleNotificationFunc s \<longrightarrow>
            ScheduleReminder s now reminder = (Some ErrInternalServer, s)) \<and>
         (handleNotificationFunc s \<and>
            (IsZero (RemindTime reminder) \<or> Before (RemindTime reminder) now) \<longrightarrow>
            ScheduleReminder s now reminder = (Some ErrScheduling, s)) \<and>
         (fst (ScheduleReminder s now reminder) \<noteq> None \<longleftrightarrow>
            \<not> handleNotificationFunc s \<or> IsZero (RemindTime reminder) \<or>
            Before (RemindTime reminder) now) \<and>
         (handleNotificationFunc s \<and> \<not> IsZero (RemindTime reminder) \<and>
            \<not> Before (RemindTime reminder) now \<longrightarrow>
            fst (ScheduleReminder s now reminder) = None \<and>
            lookup_job (snd (ScheduleReminder s now reminder)) (ID reminder) jobTypeNotify =
              Some (nextID s + 1) \<and>
            \<lparr>EntryID = nextID s + 1, Schedule = schedule_of (RemindTime reminder),
              Job = NotifyJob (ID reminder)\<rparr>
              \<in> set (entries (snd (ScheduleReminder s now reminder))) \<and>
            due (RemindTime reminder)
              \<lparr>EntryID = nextID s + 1, Schedule = schedule_of (RemindTime reminder),
                Job = NotifyJob (ID reminder)\<rparr> \<and>
            outside_scheduler s (snd (ScheduleReminder s now reminder)))"
proof -
  note p = parseSpec_schedule_of [OF assms]
  show ?thesis
    by (simp add: ScheduleReminder_eq replace_job_ok [OF p] replace_job_entry [OF p]
          due_schedule_of)
qed

theorem ScheduleReminder_outcomes_witness:
  "valid_time (RemindTime (milk 1 (at 2026 3 5 12 30 0))) \<and>
   \<not> handleNotificationFunc world_unwired \<and>
   ScheduleReminder world_unwired (at 2026 3 1 9 0 0) (milk 1 (at 2026 3 5 12 30 0)) =
     (Some ErrInternalServer, world_unwired) \<and>
   handleNotificationFunc world0 \<and>
   Before (RemindTime (milk 1 (at 2026 3 5 12 30 0))) (at 2026 3 6 9 0 0) \<and>
   ScheduleReminder world0 (at 2026 3 6 9 0 0) (milk 1 (at 2026 3 5 12 30 0)) =
     (Some ErrScheduling, world0) \<and>
   valid_time (RemindTime (milk 1 zeroTime)) \<and> IsZero (RemindTime (milk 1 zeroTime)) \<and>
   ScheduleReminder world0 (at 2026 3 6 9 0 0) (milk 1 zeroTime) = (Some ErrScheduling, world0) \<and>
   \<not> IsZero (RemindTime (milk 1 (at 2026 3 5 12 30 0))) \<and>
   \<not> Before (RemindTime (milk 1 (at 2026 3 5 12 30 0))) (at 2026 3 1 9 0 0) \<and>
   fst (ScheduleReminder world0 (at 2026 3 1 9 0 0) (milk 1 (at 2026 3 5 12 30 0))) = None \<and>
   lookup_job (snd (ScheduleReminder world0 (at 2026 3 1 9 0 0) (milk 1 (at 2026 3 5 12 30 0))))
     1 jobTypeNotify = Some 1"
proof -
  let ?r = "milk 1 (at 2026 3 5 12 30 0)"
  have v: "valid_time (RemindTime ?r)"
    by (simp add: milk_def valid_time_at daysIn_def)
  have vz: "valid_time (RemindTime (milk 1 zeroTime))"
    by (simp add: milk_def valid_time_def zeroTime_def daysIn_def)
  have u: "\<not> handleNotificationFunc world_unwired" and h: "handleNotificationFunc world0"
    and n: "nextID world0 + 1 = 1"
    by (simp_all add: world_unwired_def world0_def)
  have past: "Before (RemindTime ?r) (at 2026 3 6 9 0 0)"
    and z: "IsZero (RemindTime (milk 1 zeroTime))"
    and nz: "\<not> IsZero (RemindTime ?r)"
    and fut: "\<not> Before (RemindTime ?r) (at 2026 3 1 9 0 0)"
    and i: "ID ?r = 1"
    by (simp_all add: milk_def Before_def IsZero_def zeroTime_def at_def)
  note a = ScheduleReminder_outcomes [OF v, of world_unwired "at 2026 3 1 9 0 0"]
  note b = ScheduleReminder_outcomes [OF v, of world0 "at 2026 3 6 9 0 0"]
  note c = ScheduleReminder_outcomes [OF vz, of world0 "at 2026 3 6 9 0 0"]
  note d = ScheduleReminder_outcomes [OF v, of world0 "at 2026 3 1 9 0 0"]
  from a u have 1: "ScheduleReminder world_unwired (at 2026 3 1 9 0 0) ?r =
      (Some ErrInternalServer, world_unwired)" by blast
  from b h past have 2: "ScheduleReminder world0 (at 2026 3 6 9 0 0) ?r =
      (Some ErrScheduling, world0)" by blast
  from c h z have 3: "ScheduleReminder world0 (at 2026 3 6 9 0 0) (milk 1 zeroTime) =
      (Some ErrScheduling, world0)" by blast
  from d h nz fut have 4: "fst (ScheduleReminder world0 (at 2026 3 1 9 0 0) ?r) = None"
    and 5: "lookup_job (snd (ScheduleReminder world0 (at 2026 3 1 9 0 0) ?r)) (ID ?r)
              jobTypeNotify = Some (nextID world0 + 1)"
    by blast+
  from 5 i n have 6: "lookup_job (snd (ScheduleReminder world0 (at 2026 3 1 9 0 0) ?r)) 1
              jobTypeNotify = Some 1" by simp
  from v vz u h past z nz fut 1 2 3 4 6 show ?thesis by blast
qed

text \<open>
  The claim as stated asks for a scheduling error whenever the time is not strictly in the
  future. A reminder whose time equals the clock reading is not strictly in the future,
  and the call succeeds and stores a job.
\<close>

lemma submit_at_now:
  "ScheduleReminder world0 (at 2026 3 5 12 30 0) (milk 1 (at 2026 3 5 12 30 0)) =
     (None, world_after_first)"
  by (simp add: ScheduleReminder_def CancelReminderSchedule_def removeJobID_def
        world0_def world_after_first_def AddJob_def storeJobID_def Let_def sched_1230_def
        parseSpec_formatCronSpec valid_time_def daysIn_def milk_def IsZero_def Before_def
        zeroTime_def at_def)

theorem ScheduleReminder_not_future_counterexample:
  "\<not> Before (at 2026 3 5 12 30 0) (RemindTime (milk 1 (at 2026 3 5 12 30 0))) \<and>
   handleNotificationFunc world0 \<and>
   fst (ScheduleReminder world0 (at 2026 3 5 12 30 0) (milk 1 (at 2026 3 5 12 30 0))) = None \<and>
   lookup_job (snd (ScheduleReminder world0 (at 2026 3 5 12 30 0)
                      (milk 1 (at 2026 3 5 12 30 0)))) 1 jobTypeNotify = Some 1 \<and>
   lookup_job world0 1 jobTypeNotify = None"
  unfolding submit_at_now
  by (simp add: Before_def milk_def at_def world0_def world_after_first_def lookup_job_def)

end
